theory Spec2Isabelle
  imports Main
begin

section \<open>NASA space explorer: the gallery script (src/js/script.js)\<close>

text \<open>
  The script has three parts: the fact picker (\<open>showRandomFact\<close>), the modal controller
  (\<open>openModal\<close>, \<open>closeModal\<close> and the listeners that call them) and the gallery loader
  (the click listener of \<open>getImageBtn\<close>). They are embedded as functions on a record
  \<open>page\<close> that holds what the script reads and writes of the document.

  Text is kept as \<open>string\<close>; a character outside ASCII is written as the bytes of its
  UTF-8 encoding.
\<close>

subsection \<open>Picture records\<close>

text \<open>
  A picture record: an object of which the script reads seven properties. A property
  holds a string, or it is missing (\<open>undefined\<close>) or \<open>null\<close>, which is \<open>None\<close>.
\<close>

record picture_record =
  media_type :: "string option"
  url :: "string option"
  hdurl :: "string option"
  thumbnail_url :: "string option"
  title :: "string option"
  date :: "string option"
  explanation :: "string option"

text \<open>
  \<open>v || d\<close> on a property \<open>v\<close> and a string \<open>d\<close>: a missing property and the empty
  string are both falsy, so the right operand is taken for them.
\<close>

fun orElse :: "string option \<Rightarrow> string \<Rightarrow> string" where
  "orElse None d = d"
| "orElse (Some v) d = (if v = [] then d else v)"

subsection \<open>Elements\<close>

text \<open>An element built by the script: its tag, its attributes and its child nodes.\<close>

datatype node =
  Text string
| Element string "(string \<times> string) list" "node list"

fun childNodes :: "node \<Rightarrow> node list" where
  "childNodes (Text _) = []"
| "childNodes (Element _ _ cs) = cs"

text \<open>\<open>el.textContent = t\<close> on a new element: one text node, or no child when \<open>t\<close> is empty.\<close>

definition textContent :: "string \<Rightarrow> node list" where
  "textContent t = (if t = [] then [] else [Text t])"

fun getAttribute :: "string \<Rightarrow> node \<Rightarrow> string option" where
  "getAttribute a (Text _) = None"
| "getAttribute a (Element _ as _) = map_of as a"

text \<open>A gallery tile: the \<open>div\<close> and the record its click listener passes to \<open>openModal\<close>.\<close>

record tile =
  itemEl :: node
  clickItem :: picture_record

text \<open>
  The gallery region: the markup last assigned to \<open>gallery.innerHTML\<close> and the tiles
  appended with \<open>appendChild\<close> since then, in the order of the appends.
\<close>

record gallery_region =
  innerHTML :: string
  appended :: "tile list"

record modal_el =
  ariaHidden :: "string option"

record image_el =
  imgDisplay :: string
  imgSrc :: string
  imgAlt :: string

datatype place = AfterModalImage | EndOfModal

record embed =
  frame :: node
  insertedAt :: place

text \<open>
  An element with id \<open>did-you-know\<close>: its attributes (a style property \<open>x\<close> set by the
  script is listed as \<open>style.x\<close>), its children, and where it stands: in the page's own
  markup, or where the script inserted it.
\<close>

datatype section_place = InMarkup | BeforeGallery | TopOfBody

record fact_section =
  secAttrs :: "(string \<times> string) list"
  secChildren :: "node list"
  secPlace :: section_place

subsection \<open>Errors\<close>

datatype js_error = Error string | TypeError string | SyntaxError string

fun message :: "js_error \<Rightarrow> string" where
  "message (Error m) = m"
| "message (TypeError m) = m"
| "message (SyntaxError m) = m"

subsection \<open>The page\<close>

text \<open>
  The element references the script takes at load (\<open>None\<close> or \<open>False\<close> when the lookup
  gave \<open>null\<close>), the elements with id \<open>did-you-know\<close> and \<open>modal-video\<close> in document
  order (\<open>getElementById\<close> returns the first), the scroll lock on the body, the focus and
  the diagnostic channel. The regions are taken to be apart from each other: none of the
  text regions contains the modal image or the video embed, and the gallery contains
  none of the modal's elements.
\<close>

record page =
  gallery :: "gallery_region option"
  factSections :: "fact_section list"
  modal :: "modal_el option"
  modalImage :: "image_el option"
  modalTitle :: "string option"
  modalDate :: "string option"
  modalExplanation :: "string option"
  modalCloseBtn :: bool
  embeds :: "embed list"
  bodyOverflow :: string
  closeBtnFocused :: bool
  console :: "(string \<times> js_error) list"

text \<open>
  A property read or written through a reference that is \<open>null\<close> raises a TypeError;
  the model raises it wherever the source dereferences one of its element references.
\<close>

definition nullAccess :: js_error where
  "nullAccess = TypeError ''Cannot read properties of null''"

text \<open>
  The error of reading the property \<open>p\<close> of \<open>null\<close>. The wording of the message is the
  engine's; this is the one of V8.
\<close>

definition nullRead :: "string \<Rightarrow> js_error" where
  "nullRead p =
     TypeError (''Cannot read properties of null (reading '' @ [CHR 0x27] @ p @ [CHR 0x27] @
                '')'')"

text \<open>Statements run in sequence; the first one that raises ends the run.\<close>

fun runSteps :: "(page \<Rightarrow> js_error + page) list \<Rightarrow> page \<Rightarrow> js_error + page" where
  "runSteps [] s = Inr s"
| "runSteps (f # fs) s = (case f s of Inl e \<Rightarrow> Inl e | Inr s' \<Rightarrow> runSteps fs s')"

subsection \<open>Gallery loader\<close>

text \<open>
  What the two awaits of the listener deliver: \<open>fetch\<close> rejects, or resolves with a
  response that has a status and a body; \<open>response.json()\<close> rejects, or resolves with the
  parsed value, which is an array or something else. An element of the array is a
  picture record or \<open>null\<close>, which is \<open>None\<close>: nothing checks the elements before the
  loop reads them.
\<close>

datatype parsed = NotArray | ArrayOf "picture_record option list"

datatype body = InvalidJson js_error | Json parsed

datatype fetch_result = Rejected js_error | Response nat body

text \<open>\<open>response.ok\<close>: the status is in the range 200 to 299.\<close>

definition responseOk :: "nat \<Rightarrow> bool" where
  "responseOk status = (200 \<le> status \<and> status \<le> 299)"

text \<open>The status in a template literal: its decimal digits.\<close>

fun show_nat :: "nat \<Rightarrow> string" where
  "show_nat n =
     (if n < 10 then [''0123456789'' ! n]
      else show_nat (n div 10) @ [''0123456789'' ! (n mod 10)])"

declare show_nat.simps [simp del]

definition loadingMarkup :: string where
  "loadingMarkup =
     ''<p class=\"loading\">'' @ [CHR 0xF0, CHR 0x9F, CHR 0x94, CHR 0x84] @
     '' Loading space photos'' @ [CHR 0xE2, CHR 0x80, CHR 0xA6] @ ''</p>''"

definition noImagesMarkup :: string where
  "noImagesMarkup = ''<p>No images found.</p>''"

definition errorMarkup :: "js_error \<Rightarrow> string" where
  "errorMarkup e = ''<p class=\"error\">Error loading images: '' @ message e @ ''</p>''"

definition notOkError :: "nat \<Rightarrow> js_error" where
  "notOkError status = Error (''Network response was not ok ('' @ show_nat status @ '')'')"

text \<open>\<open>gallery.innerHTML = m\<close>: the markup replaces every child of the gallery.\<close>

definition setInnerHTML :: "string \<Rightarrow> page \<Rightarrow> js_error + page" where
  "setInnerHTML m s =
     (case gallery s of
        None \<Rightarrow> Inl nullAccess
      | Some _ \<Rightarrow> Inr (s\<lparr>gallery := Some \<lparr>innerHTML = m, appended = []\<rparr>\<rparr>))"

definition playSymbol :: string where
  "playSymbol = [CHR 0xE2, CHR 0x96, CHR 0xB6]"

text \<open>The body of the \<open>forEach\<close> callback up to the append: the tile of one record.\<close>

definition createTile :: "picture_record \<Rightarrow> tile" where
  "createTile item =
     (let isVideo = (media_type item = Some ''video'');
          src = (if isVideo then orElse (thumbnail_url item) (orElse (url item) [])
                 else orElse (url item) []);
          img = Element ''img''
                  [(''src'', src), (''alt'', orElse (title item) ''Space image''),
                   (''loading'', ''lazy'')] [];
          h3 = Element ''h3'' [] (textContent (orElse (title item) ''Untitled''));
          p = Element ''p'' [(''class'', ''date'')] (textContent (orElse (date item) []));
          overlay = Element ''span''
                      [(''class'', ''play-overlay''), (''aria-hidden'', ''true'')]
                      (textContent playSymbol)
      in \<lparr>itemEl = Element ''div'' [(''class'', ''gallery-item'')]
                      ((if isVideo then [overlay] else []) @ [img, h3, p]),
          clickItem = item\<rparr>)"

text \<open>\<open>if (gallery) gallery.appendChild(itemEl)\<close>\<close>

definition appendTile :: "tile \<Rightarrow> page \<Rightarrow> page" where
  "appendTile t s =
     (case gallery s of
        None \<Rightarrow> s
      | Some g \<Rightarrow> s\<lparr>gallery := Some (g\<lparr>appended := appended g @ [t]\<rparr>)\<rparr>)"

text \<open>
  \<open>data.forEach((item) => ...)\<close>. The callback first reads \<open>item.media_type\<close>, which
  raises when the element is \<open>null\<close>; the tiles of the elements before it are in the
  gallery by then. \<open>Inl\<close> holds the error together with the page as it is at the raise.
\<close>

fun forEachItem ::
  "picture_record option list \<Rightarrow> page \<Rightarrow> (js_error \<times> page) + page" where
  "forEachItem [] s = Inr s"
| "forEachItem (None # items) s = Inl (nullRead ''media_type'', s)"
| "forEachItem (Some item # items) s = forEachItem items (appendTile (createTile item) s)"

text \<open>A statement of the \<open>try\<close> block that raises, raises on the page it was run on.\<close>

definition raisedAt :: "page \<Rightarrow> js_error + page \<Rightarrow> (js_error \<times> page) + page" where
  "raisedAt s r = (case r of Inl e \<Rightarrow> Inl (e, s) | Inr s' \<Rightarrow> Inr s')"

text \<open>
  The \<open>try\<close> block; \<open>Inl\<close> holds the error it raises and the page as it is at the raise.
\<close>

definition tryLoad :: "fetch_result \<Rightarrow> page \<Rightarrow> (js_error \<times> page) + page" where
  "tryLoad res s =
     (case res of
        Rejected e \<Rightarrow> Inl (e, s)
      | Response status b \<Rightarrow>
          if \<not> responseOk status then Inl (notOkError status, s)
          else (case b of
                  InvalidJson e \<Rightarrow> Inl (e, s)
                | Json NotArray \<Rightarrow> raisedAt s (setInnerHTML noImagesMarkup s)
                | Json (ArrayOf items) \<Rightarrow>
                    if length items = 0 then raisedAt s (setInnerHTML noImagesMarkup s)
                    else (case setInnerHTML [] s of
                            Inl e \<Rightarrow> Inl (e, s)
                          | Inr s' \<Rightarrow> forEachItem items s')))"

text \<open>The \<open>catch\<close> block: the error message replaces the gallery content and is logged.\<close>

definition logError :: "js_error \<Rightarrow> page \<Rightarrow> js_error + page" where
  "logError e s = Inr (s\<lparr>console := console s @ [(''Failed to load APOD data:'', e)]\<rparr>)"

definition catchLoad :: "js_error \<Rightarrow> page \<Rightarrow> js_error + page" where
  "catchLoad e s = runSteps [setInnerHTML (errorMarkup e), logError e] s"

text \<open>
  The click listener of \<open>getImageBtn\<close> is asynchronous. \<open>startLoad\<close> is what it does at
  the click, up to the first await: the guard on the gallery and the loading placeholder.
  \<open>finishLoad\<close> is what it does once its awaits have delivered, on the page as it is at
  that moment: the rest of the \<open>try\<close> block, and the \<open>catch\<close> block, on the page as the
  \<open>try\<close> block left it, when it raises. The
  listener touches nothing while it waits, and the gallery reference is a constant, so
  \<open>finishLoad\<close> runs only where \<open>startLoad\<close> found a gallery. \<open>Inl\<close> would be an error that
  leaves the listener.
\<close>

definition startLoad :: "page \<Rightarrow> js_error + page" where
  "startLoad s = (if gallery s = None then Inr s else setInnerHTML loadingMarkup s)"

definition finishLoad :: "fetch_result \<Rightarrow> page \<Rightarrow> js_error + page" where
  "finishLoad res s =
     (if gallery s = None then Inr s
      else (case tryLoad res s of
              Inl (e, s') \<Rightarrow> catchLoad e s'
            | Inr s' \<Rightarrow> Inr s'))"

text \<open>A run of the listener with no other event between its click and its end.\<close>

definition onGetImageClick :: "fetch_result \<Rightarrow> page \<Rightarrow> js_error + page" where
  "onGetImageClick res s = runSteps [startLoad, finishLoad res] s"

text \<open>The play marker of a tile: a child with class \<open>play-overlay\<close>.\<close>

definition hasPlayOverlay :: "tile \<Rightarrow> bool" where
  "hasPlayOverlay t =
     list_ex (\<lambda>c. getAttribute ''class'' c = Some ''play-overlay'') (childNodes (itemEl t))"

subsection \<open>Modal controller\<close>

text \<open>
  \<open>const previousIframe = document.getElementById('modal-video');
  if (previousIframe) previousIframe.remove();\<close>
\<close>

definition removeModalVideo :: "page \<Rightarrow> js_error + page" where
  "removeModalVideo s =
     (case embeds s of
        [] \<Rightarrow> Inr s
      | previousIframe # others \<Rightarrow> Inr (s\<lparr>embeds := others\<rparr>))"

text \<open>A write to the modal image, to the modal and to the three text regions.\<close>

definition updImage :: "(image_el \<Rightarrow> image_el) \<Rightarrow> page \<Rightarrow> js_error + page" where
  "updImage f s =
     (case modalImage s of
        None \<Rightarrow> Inl nullAccess
      | Some i \<Rightarrow> Inr (s\<lparr>modalImage := Some (f i)\<rparr>))"

definition setAriaHidden :: "string \<Rightarrow> page \<Rightarrow> js_error + page" where
  "setAriaHidden v s =
     (case modal s of
        None \<Rightarrow> Inl nullAccess
      | Some m \<Rightarrow> Inr (s\<lparr>modal := Some (m\<lparr>ariaHidden := Some v\<rparr>)\<rparr>))"

definition setTitleText :: "string \<Rightarrow> page \<Rightarrow> js_error + page" where
  "setTitleText t s =
     (case modalTitle s of
        None \<Rightarrow> Inl nullAccess
      | Some _ \<Rightarrow> Inr (s\<lparr>modalTitle := Some t\<rparr>))"

definition setDateText :: "string \<Rightarrow> page \<Rightarrow> js_error + page" where
  "setDateText t s =
     (case modalDate s of
        None \<Rightarrow> Inl nullAccess
      | Some _ \<Rightarrow> Inr (s\<lparr>modalDate := Some t\<rparr>))"

definition setExplanationText :: "string \<Rightarrow> page \<Rightarrow> js_error + page" where
  "setExplanationText t s =
     (case modalExplanation s of
        None \<Rightarrow> Inl nullAccess
      | Some _ \<Rightarrow> Inr (s\<lparr>modalExplanation := Some t\<rparr>))"

definition focusCloseBtn :: "page \<Rightarrow> js_error + page" where
  "focusCloseBtn s =
     (if modalCloseBtn s then Inr (s\<lparr>closeBtnFocused := True\<rparr>) else Inl nullAccess)"

definition setBodyOverflow :: "string \<Rightarrow> page \<Rightarrow> js_error + page" where
  "setBodyOverflow v s = Inr (s\<lparr>bodyOverflow := v\<rparr>)"

text \<open>The iframe that \<open>openModal\<close> creates for a video record.\<close>

definition createIframe :: "picture_record \<Rightarrow> node" where
  "createIframe item =
     Element ''iframe''
       [(''id'', ''modal-video''),
        (''src'', orElse (url item) (orElse (thumbnail_url item) [])),
        (''width'', ''100%''),
        (''height'', ''420''),
        (''frameborder'', ''0''),
        (''allow'', ''accelerometer; autoplay; clipboard-write; encrypted-media; gyroscope; picture-in-picture''),
        (''allowfullscreen'', [])] []"

text \<open>
  The iframe goes after the modal image in the image's parent, or to the end of the
  modal when there is no image. An image that was found in the document has a parent.
  Where the new element stands among other elements with the same id depends on the
  page's markup; the model puts it first.
\<close>

definition insertIframe :: "node \<Rightarrow> page \<Rightarrow> js_error + page" where
  "insertIframe iframe s =
     (if modalImage s \<noteq> None
      then Inr (s\<lparr>embeds := \<lparr>frame = iframe, insertedAt = AfterModalImage\<rparr> # embeds s\<rparr>)
      else (case modal s of
              None \<Rightarrow> Inl nullAccess
            | Some _ \<Rightarrow>
                Inr (s\<lparr>embeds := \<lparr>frame = iframe, insertedAt = EndOfModal\<rparr> # embeds s\<rparr>)))"

text \<open>The branch on \<open>item.media_type === 'video'\<close>.\<close>

definition hideImage :: "page \<Rightarrow> js_error + page" where
  "hideImage s =
     (if modalImage s \<noteq> None then updImage (\<lambda>i. i\<lparr>imgDisplay := ''none''\<rparr>) s else Inr s)"

definition showImage :: "picture_record \<Rightarrow> page \<Rightarrow> js_error + page" where
  "showImage item s =
     (if modalImage s \<noteq> None
      then updImage (\<lambda>i. i\<lparr>imgDisplay := [],
                            imgSrc := orElse (hdurl item) (orElse (url item) []),
                            imgAlt := orElse (title item) ''Space image''\<rparr>) s
      else Inr s)"

definition showMedia :: "picture_record \<Rightarrow> page \<Rightarrow> js_error + page" where
  "showMedia item s =
     (if media_type item = Some ''video''
      then runSteps [hideImage, insertIframe (createIframe item)] s
      else showImage item s)"

definition fillTitle :: "picture_record \<Rightarrow> page \<Rightarrow> js_error + page" where
  "fillTitle item s =
     (if modalTitle s \<noteq> None then setTitleText (orElse (title item) ''Untitled'') s else Inr s)"

definition fillDate :: "picture_record \<Rightarrow> page \<Rightarrow> js_error + page" where
  "fillDate item s =
     (if modalDate s \<noteq> None then setDateText (orElse (date item) []) s else Inr s)"

definition fillExplanation :: "picture_record \<Rightarrow> page \<Rightarrow> js_error + page" where
  "fillExplanation item s =
     (if modalExplanation s \<noteq> None
      then setExplanationText (orElse (explanation item) []) s else Inr s)"

definition focusClose :: "page \<Rightarrow> js_error + page" where
  "focusClose s = (if modalCloseBtn s then focusCloseBtn s else Inr s)"

text \<open>\<open>openModal(item)\<close>; \<open>None\<close> is a call with no record (\<open>undefined\<close> or \<open>null\<close>).\<close>

definition openModal :: "picture_record option \<Rightarrow> page \<Rightarrow> js_error + page" where
  "openModal item s =
     (case item of
        None \<Rightarrow> Inr s
      | Some it \<Rightarrow>
          if modal s = None then Inr s
          else runSteps
                 [removeModalVideo,
                  showMedia it,
                  fillTitle it,
                  fillDate it,
                  fillExplanation it,
                  setAriaHidden ''false'',
                  setBodyOverflow ''hidden'',
                  focusClose] s)"

definition resetImage :: "page \<Rightarrow> js_error + page" where
  "resetImage s =
     (if modalImage s \<noteq> None
      then updImage (\<lambda>i. i\<lparr>imgSrc := [], imgDisplay := []\<rparr>) s
      else Inr s)"

definition closeModal :: "page \<Rightarrow> js_error + page" where
  "closeModal s =
     (if modal s = None then Inr s
      else runSteps
             [setAriaHidden ''true'',
              removeModalVideo,
              resetImage,
              setBodyOverflow []] s)"

text \<open>
  The listeners. A tile's click listener is \<open>openModal\<close> on the tile's record, the close
  button's is \<open>closeModal\<close>. The overlay's listener looks at \<open>e.target.dataset.close\<close>:
  the target may be missing, may have no \<open>dataset\<close>, and the \<open>data-close\<close> attribute may
  be missing or empty.
\<close>

record event_target =
  dataset :: "(string \<times> string) list option"

definition shouldClose :: "event_target option \<Rightarrow> bool" where
  "shouldClose target =
     (case target of
        None \<Rightarrow> False
      | Some t \<Rightarrow>
          (case dataset t of
             None \<Rightarrow> False
           | Some d \<Rightarrow> (case map_of d ''close'' of None \<Rightarrow> False | Some v \<Rightarrow> v \<noteq> [])))"

definition onOverlayClick :: "event_target option \<Rightarrow> page \<Rightarrow> js_error + page" where
  "onOverlayClick target s = (if shouldClose target then closeModal s else Inr s)"

definition onKeydown :: "string \<Rightarrow> page \<Rightarrow> js_error + page" where
  "onKeydown key s =
     (case modal s of
        None \<Rightarrow> Inr s
      | Some m \<Rightarrow>
          if key = ''Escape'' \<and> ariaHidden m = Some ''false'' then closeModal s else Inr s)"

text \<open>A run of modal controller operations, for the invariant on the video embed.\<close>

datatype modal_op = Open "picture_record option" | Close

fun runOp :: "modal_op \<Rightarrow> page \<Rightarrow> js_error + page" where
  "runOp (Open item) s = openModal item s"
| "runOp Close s = closeModal s"

subsection \<open>Fact picker\<close>

definition emDash :: string where
  "emDash = [CHR 0xE2, CHR 0x80, CHR 0x94]"

definition spaceFacts :: "string list" where
  "spaceFacts =
     [''Venus spins backward compared to most planets '' @ emDash @
        '' the Sun rises in the west there.'',
      ''A day on Venus (one rotation) is longer than a year on Venus (one orbit).'',
      ''Neutron stars are so dense that a teaspoon of their material would weigh about a billion tons on Earth.'',
      ''Jupiter'' @ [CHR 0x27] @
        ''s Great Red Spot is a gigantic storm larger than Earth that has raged for centuries.'',
      ''There are more stars in the observable universe than grains of sand on all Earth'' @
        [CHR 0x27] @ ''s beaches combined.'',
      ''Saturn could float in water because its average density is less than water.'',
      ''The largest volcano in the solar system is Olympus Mons on Mars '' @ emDash @
        '' it'' @ [CHR 0x27] @ ''s about three times taller than Mount Everest.'',
      ''Light from the Sun takes about 8 minutes and 20 seconds to reach Earth.'',
      ''A year on Mercury only lasts 88 Earth days.'',
      ''The Moon is slowly moving away from Earth at about 3.8 centimeters per year.'']"

definition fallbackFact :: string where
  "fallbackFact = ''Space is full of surprises!''"

text \<open>
  \<open>Math.random()\<close> gives a double that is at least 0 and less than 1. Such a double is
  \<open>m / 2 ^ e\<close> for a significand \<open>m\<close> of at most 53 bits and an exponent \<open>e\<close> of at most
  1074; the pair \<open>(m, e)\<close> stands for it.
\<close>

type_synonym random_value = "nat \<times> nat"

definition isRandomValue :: "random_value \<Rightarrow> bool" where
  "isRandomValue r = (case r of (m, e) \<Rightarrow> m < 2 ^ 53 \<and> m < 2 ^ e \<and> e \<le> 1074)"

fun bitlen :: "nat \<Rightarrow> nat" where
  "bitlen n = (if n = 0 then 0 else Suc (bitlen (n div 2)))"

declare bitlen.simps [simp del]

text \<open>
  The product of a double and the list's length is rounded to the nearest double, a tie
  going to the even significand. With the product \<open>N / 2 ^ e\<close> exact, \<open>roundToDouble N\<close>
  is the numerator of the rounded product over the same \<open>2 ^ e\<close>: a product of more than
  53 bits loses its low bits.
\<close>

definition roundToDouble :: "nat \<Rightarrow> nat" where
  "roundToDouble N =
     (if bitlen N \<le> 53 then N
      else (let k = bitlen N - 53;
                q = N div 2 ^ k;
                rest = N mod 2 ^ k;
                half = 2 ^ (k - 1)
            in if rest > half \<or> (rest = half \<and> odd q) then (q + 1) * 2 ^ k else q * 2 ^ k))"

text \<open>\<open>Math.floor(Math.random() * spaceFacts.length)\<close>, for the draw \<open>r\<close> and the length \<open>n\<close>.\<close>

definition randomIndex :: "nat \<Rightarrow> random_value \<Rightarrow> nat" where
  "randomIndex n r = (case r of (m, e) \<Rightarrow> roundToDouble (m * n) div 2 ^ e)"

text \<open>\<open>facts[idx]\<close>: \<open>undefined\<close> beyond the end of the array.\<close>

definition factAt :: "string list \<Rightarrow> nat \<Rightarrow> string option" where
  "factAt facts idx = (if idx < length facts then Some (facts ! idx) else None)"

text \<open>
  \<open>spaceFacts[idx] || 'Space is full of surprises!'\<close>. The list is a parameter here so
  that the index can be studied for every length; the script runs it on \<open>spaceFacts\<close>.
\<close>

definition pickFact :: "string list \<Rightarrow> random_value \<Rightarrow> string" where
  "pickFact facts r = orElse (factAt facts (randomIndex (length facts) r)) fallbackFact"








subsection \<open>Notions used to state the properties\<close>

text \<open>
  A property of a record is present when it holds a string that is not empty: this is
  what \<open>||\<close> takes as "there".
\<close>

definition present :: "string option \<Rightarrow> bool" where
  "present v = (v \<noteq> None \<and> v \<noteq> Some [])"

text \<open>A click on a tile runs the tile's listener.\<close>

definition onTileClick :: "tile \<Rightarrow> page \<Rightarrow> js_error + page" where
  "onTileClick t s = openModal (Some (clickItem t)) s"

fun runOps :: "modal_op list \<Rightarrow> page \<Rightarrow> js_error + page" where
  "runOps [] s = Inr s"
| "runOps (op # ops) s = (case runOp op s of Inl e \<Rightarrow> Inl e | Inr s' \<Rightarrow> runOps ops s')"

subsection \<open>Sample pages and records\<close>

text \<open>A page with every region in place and nothing loaded yet, and one with no region.\<close>

definition freshPage :: page where
  "freshPage =
     \<lparr>gallery = Some \<lparr>innerHTML = [], appended = []\<rparr>,
      factSections = [],
      modal = Some \<lparr>ariaHidden = Some ''true''\<rparr>,
      modalImage = Some \<lparr>imgDisplay = [], imgSrc = [], imgAlt = []\<rparr>,
      modalTitle = Some [],
      modalDate = Some [],
      modalExplanation = Some [],
      modalCloseBtn = True,
      embeds = [],
      bodyOverflow = [],
      closeBtnFocused = False,
      console = []\<rparr>"

definition barePage :: page where
  "barePage =
     \<lparr>gallery = None,
      factSections = [],
      modal = None,
      modalImage = None,
      modalTitle = None,
      modalDate = None,
      modalExplanation = None,
      modalCloseBtn = False,
      embeds = [],
      bodyOverflow = [],
      closeBtnFocused = False,
      console = []\<rparr>"

definition pictureA :: picture_record where
  "pictureA =
     \<lparr>media_type = Some ''image'', url = Some ''u1'', hdurl = None, thumbnail_url = None,
      title = Some ''A'', date = Some ''2020-01-01'', explanation = None\<rparr>"

definition pictureB :: picture_record where
  "pictureB =
     \<lparr>media_type = Some ''video'', url = Some ''u2'', hdurl = None,
      thumbnail_url = Some ''t2'', title = Some ''B'', date = None, explanation = None\<rparr>"

definition pictureVideo :: picture_record where
  "pictureVideo =
     \<lparr>media_type = Some ''video'', url = Some ''https://embed/x'', hdurl = None,
      thumbnail_url = None, title = None, date = None, explanation = None\<rparr>"


section \<open>Gallery loader: properties\<close>

lemma forEachItem_appends:
  "gallery s = Some g \<Longrightarrow>
   forEachItem (map Some items) s =
     Inr (s\<lparr>gallery := Some (g\<lparr>appended := appended g @ map createTile items\<rparr>)\<rparr>)"
proof (induction items arbitrary: s g)
  case Nil
  then show ?case by simp
next
  case (Cons item items)
  have "gallery (appendTile (createTile item) s) =
          Some (g\<lparr>appended := appended g @ [createTile item]\<rparr>)"
    using Cons.prems by (simp add: appendTile_def)
  from Cons.IH [OF this] show ?case
    using Cons.prems by (simp add: appendTile_def)
qed

lemma forEachItem_result:
  "gallery s = Some g \<Longrightarrow>
   (\<exists>g'. forEachItem elems s = Inr (s\<lparr>gallery := Some g'\<rparr>)) \<or>
   (\<exists>g'. forEachItem elems s = Inl (nullRead ''media_type'', s\<lparr>gallery := Some g'\<rparr>))"
proof (induction elems arbitrary: s g)
  case Nil
  then have "s = s\<lparr>gallery := Some g\<rparr>" by simp
  then show ?case by (metis forEachItem.simps(1))
next
  case (Cons el elems)
  show ?case
  proof (cases el)
    case None
    from Cons.prems have "s = s\<lparr>gallery := Some g\<rparr>" by simp
    then show ?thesis unfolding None by (metis forEachItem.simps(2))
  next
    case (Some item)
    let ?s = "appendTile (createTile item) s"
    have g: "gallery ?s = Some (g\<lparr>appended := appended g @ [createTile item]\<rparr>)"
      and eq: "\<And>g'. ?s\<lparr>gallery := Some g'\<rparr> = s\<lparr>gallery := Some g'\<rparr>"
      using Cons.prems by (simp_all add: appendTile_def)
    from Cons.IH [OF g] show ?thesis unfolding Some by (simp add: eq)
  qed
qed

lemma onGetImageClick_success:
  assumes "gallery s = Some g" and "responseOk status" and "items \<noteq> []"
  shows "onGetImageClick (Response status (Json (ArrayOf (map Some items)))) s =
           Inr (s\<lparr>gallery := Some \<lparr>innerHTML = [], appended = map createTile items\<rparr>\<rparr>)"
  using assms
  by (simp add: onGetImageClick_def startLoad_def finishLoad_def setInnerHTML_def tryLoad_def
      forEachItem_appends)

lemma finishLoad_success:
  assumes "gallery s = Some g" and "responseOk status" and "items \<noteq> []"
  shows "finishLoad (Response status (Json (ArrayOf (map Some items)))) s =
           Inr (s\<lparr>gallery := Some \<lparr>innerHTML = [], appended = map createTile items\<rparr>\<rparr>)"
  using assms
  by (simp add: finishLoad_def setInnerHTML_def tryLoad_def forEachItem_appends)

lemma onGetImageClick_failure:
  assumes "gallery s = Some g"
    and "tryLoad res (s\<lparr>gallery := Some \<lparr>innerHTML = loadingMarkup, appended = []\<rparr>\<rparr>) =
           Inl (e, s\<lparr>gallery := Some g'\<rparr>)"
  shows "onGetImageClick res s =
           Inr (s\<lparr>gallery := Some \<lparr>innerHTML = errorMarkup e, appended = []\<rparr>,
                   console := console s @ [(''Failed to load APOD data:'', e)]\<rparr>)"
  using assms
  by (simp add: onGetImageClick_def startLoad_def finishLoad_def setInnerHTML_def
      catchLoad_def logError_def)

lemma onGetImageClick_not_ok:
  assumes "gallery s = Some g" and "\<not> responseOk status"
  shows "onGetImageClick (Response status b) s =
           Inr (s\<lparr>gallery :=
                     Some \<lparr>innerHTML = errorMarkup (notOkError status), appended = []\<rparr>,
                   console :=
                     console s @ [(''Failed to load APOD data:'', notOkError status)]\<rparr>)"
  using assms
  by (intro onGetImageClick_failure [where g' = "\<lparr>innerHTML = loadingMarkup, appended = []\<rparr>"])
     (simp_all add: tryLoad_def)

lemma onGetImageClick_rejected:
  assumes "gallery s = Some g"
  shows "onGetImageClick (Rejected e) s =
           Inr (s\<lparr>gallery := Some \<lparr>innerHTML = errorMarkup e, appended = []\<rparr>,
                   console := console s @ [(''Failed to load APOD data:'', e)]\<rparr>)"
  using assms
  by (intro onGetImageClick_failure [where g' = "\<lparr>innerHTML = loadingMarkup, appended = []\<rparr>"])
     (simp_all add: tryLoad_def)

lemma onGetImageClick_invalid_json:
  assumes "gallery s = Some g" and "responseOk status"
  shows "onGetImageClick (Response status (InvalidJson e)) s =
           Inr (s\<lparr>gallery := Some \<lparr>innerHTML = errorMarkup e, appended = []\<rparr>,
                   console := console s @ [(''Failed to load APOD data:'', e)]\<rparr>)"
  using assms
  by (intro onGetImageClick_failure [where g' = "\<lparr>innerHTML = loadingMarkup, appended = []\<rparr>"])
     (simp_all add: tryLoad_def)

lemma onGetImageClick_no_images:
  assumes "gallery s = Some g" and "responseOk status" and "d = NotArray \<or> d = ArrayOf []"
  shows "onGetImageClick (Response status (Json d)) s =
           Inr (s\<lparr>gallery := Some \<lparr>innerHTML = noImagesMarkup, appended = []\<rparr>\<rparr>)"
  using assms
  by (auto simp add: onGetImageClick_def startLoad_def finishLoad_def setInnerHTML_def
      tryLoad_def raisedAt_def)

text \<open>
  A non-empty array either gives tiles, or has a \<open>null\<close> element and ends in the error
  paragraph with no tile.
\<close>

lemma onGetImageClick_elements:
  assumes "gallery s = Some g" and "responseOk status" and "elems \<noteq> []"
  shows "(\<exists>g'. onGetImageClick (Response status (Json (ArrayOf elems))) s =
                 Inr (s\<lparr>gallery := Some g'\<rparr>)) \<or>
         onGetImageClick (Response status (Json (ArrayOf elems))) s =
           Inr (s\<lparr>gallery :=
                     Some \<lparr>innerHTML = errorMarkup (nullRead ''media_type''), appended = []\<rparr>,
                   console :=
                     console s @ [(''Failed to load APOD data:'', nullRead ''media_type'')]\<rparr>)"
proof -
  let ?L = "s\<lparr>gallery := Some \<lparr>innerHTML = loadingMarkup, appended = []\<rparr>\<rparr>"
  let ?C = "s\<lparr>gallery := Some \<lparr>innerHTML = [], appended = []\<rparr>\<rparr>"
  have tr: "tryLoad (Response status (Json (ArrayOf elems))) ?L = forEachItem elems ?C"
    using assms(2,3) by (simp add: tryLoad_def setInnerHTML_def)
  have "gallery ?C = Some \<lparr>innerHTML = [], appended = []\<rparr>" by simp
  from forEachItem_result [OF this, of elems]
  show ?thesis
  proof
    assume "\<exists>g'. forEachItem elems ?C = Inr (?C\<lparr>gallery := Some g'\<rparr>)"
    then obtain g' where "forEachItem elems ?C = Inr (s\<lparr>gallery := Some g'\<rparr>)" by auto
    then have "onGetImageClick (Response status (Json (ArrayOf elems))) s =
                 Inr (s\<lparr>gallery := Some g'\<rparr>)"
      using assms(1) tr
      by (simp add: onGetImageClick_def startLoad_def finishLoad_def setInnerHTML_def)
    then show ?thesis by blast
  next
    assume "\<exists>g'. forEachItem elems ?C = Inl (nullRead ''media_type'', ?C\<lparr>gallery := Some g'\<rparr>)"
    then obtain g' where
      "forEachItem elems ?C = Inl (nullRead ''media_type'', s\<lparr>gallery := Some g'\<rparr>)" by auto
    with tr have "tryLoad (Response status (Json (ArrayOf elems))) ?L =
        Inl (nullRead ''media_type'', s\<lparr>gallery := Some g'\<rparr>)" by simp
    from onGetImageClick_failure [OF assms(1) this] show ?thesis by blast
  qed
qed

text \<open>
  Every run of the listener returns, and leaves everything but the gallery's content and
  the diagnostic channel as it was.
\<close>

lemma onGetImageClick_frame:
  "\<exists>s'. onGetImageClick res s = Inr s' \<and>
         s' = s\<lparr>gallery := gallery s', console := console s'\<rparr> \<and>
         (gallery s' = None \<longleftrightarrow> gallery s = None)"
proof (cases "gallery s")
  case None
  then show ?thesis by (simp add: onGetImageClick_def startLoad_def finishLoad_def)
next
  case (Some g)
  show ?thesis
  proof (cases res)
    case (Rejected e)
    show ?thesis
      unfolding Rejected onGetImageClick_rejected [OF Some] using Some by simp
  next
    case (Response status b)
    show ?thesis
    proof (cases "responseOk status")
      case False
      show ?thesis
        unfolding Response onGetImageClick_not_ok [OF Some False] using Some by simp
    next
      case ok: True
      show ?thesis
      proof (cases b)
        case (InvalidJson e)
        show ?thesis
          unfolding Response InvalidJson onGetImageClick_invalid_json [OF Some ok]
          using Some by simp
      next
        case (Json d)
        show ?thesis
        proof (cases "d = NotArray \<or> d = ArrayOf []")
          case True
          show ?thesis
            unfolding Response Json onGetImageClick_no_images [OF Some ok True]
            using Some by simp
        next
          case False
          then obtain elems where d: "d = ArrayOf elems" and ne: "elems \<noteq> []"
            by (cases d) auto
          from onGetImageClick_elements [OF Some ok ne] show ?thesis
            unfolding Response Json d using Some by auto
        qed
      qed
    qed
  qed
qed

lemma hasPlayOverlay_createTile:
  "hasPlayOverlay (createTile item) \<longleftrightarrow> media_type item = Some ''video''"
  by (simp add: hasPlayOverlay_def createTile_def Let_def)

text \<open>
  Claim C1, as amended. When the response is ok and parses to a non-empty array of
  picture records (no element is \<open>null\<close>), the listener returns and leaves in the gallery
  exactly one tile per record, in the order of the array: the i-th tile is the one
  built from the i-th record and its click listener holds that record. A tile has the
  play marker if and only if its record's \<open>media_type\<close> is \<open>video\<close>. For the response of
  the two records A and B the gallery holds the two tiles written out below, the marker
  on the second only.
\<close>

theorem gallery_one_tile_per_record:
  assumes "gallery s = Some g" and "responseOk status" and "items \<noteq> []"
  shows "(\<exists>s' g'. onGetImageClick (Response status (Json (ArrayOf (map Some items)))) s = Inr s' \<and>
            gallery s' = Some g' \<and>
            innerHTML g' = [] \<and>
            appended g' = map createTile items \<and>
            length (appended g') = length items \<and>
            (\<forall>i < length items.
               clickItem (appended g' ! i) = items ! i \<and>
               (hasPlayOverlay (appended g' ! i) \<longleftrightarrow>
                  media_type (items ! i) = Some ''video''))) \<and>
         onGetImageClick (Response status (Json (ArrayOf [Some pictureA, Some pictureB]))) s =
           Inr (s\<lparr>gallery := Some
             \<lparr>innerHTML = [],
              appended =
                [\<lparr>itemEl = Element ''div'' [(''class'', ''gallery-item'')]
                     [Element ''img''
                        [(''src'', ''u1''), (''alt'', ''A''), (''loading'', ''lazy'')] [],
                      Element ''h3'' [] [Text ''A''],
                      Element ''p'' [(''class'', ''date'')] [Text ''2020-01-01'']],
                   clickItem = pictureA\<rparr>,
                 \<lparr>itemEl = Element ''div'' [(''class'', ''gallery-item'')]
                     [Element ''span''
                        [(''class'', ''play-overlay''), (''aria-hidden'', ''true'')]
                        [Text playSymbol],
                      Element ''img''
                        [(''src'', ''t2''), (''alt'', ''B''), (''loading'', ''lazy'')] [],
                      Element ''h3'' [] [Text ''B''],
                      Element ''p'' [(''class'', ''date'')] []],
                   clickItem = pictureB\<rparr>]\<rparr>\<rparr>) \<and>
         \<not> hasPlayOverlay (createTile pictureA) \<and> hasPlayOverlay (createTile pictureB)"
proof -
  let ?g = "\<lparr>innerHTML = [], appended = map createTile items\<rparr>"
  have run: "onGetImageClick (Response status (Json (ArrayOf (map Some items)))) s =
               Inr (s\<lparr>gallery := Some ?g\<rparr>)"
    using assms by (rule onGetImageClick_success)
  have each: "\<forall>i < length items.
                clickItem (appended ?g ! i) = items ! i \<and>
                (hasPlayOverlay (appended ?g ! i) \<longleftrightarrow>
                   media_type (items ! i) = Some ''video'')"
    by (simp add: hasPlayOverlay_createTile) (simp add: createTile_def Let_def)
  have general: "\<exists>s' g'. onGetImageClick (Response status (Json (ArrayOf (map Some items)))) s = Inr s' \<and>
            gallery s' = Some g' \<and>
            innerHTML g' = [] \<and>
            appended g' = map createTile items \<and>
            length (appended g') = length items \<and>
            (\<forall>i < length items.
               clickItem (appended g' ! i) = items ! i \<and>
               (hasPlayOverlay (appended g' ! i) \<longleftrightarrow>
                  media_type (items ! i) = Some ''video''))"
    using run each by simp
  have two: "onGetImageClick (Response status (Json (ArrayOf [Some pictureA, Some pictureB]))) s =
      Inr (s\<lparr>gallery := Some
             \<lparr>innerHTML = [], appended = map createTile [pictureA, pictureB]\<rparr>\<rparr>)"
    using onGetImageClick_success [OF assms(1,2), of "[pictureA, pictureB]"] by simp
  have tiles: "map createTile [pictureA, pictureB] =
      [\<lparr>itemEl = Element ''div'' [(''class'', ''gallery-item'')]
           [Element ''img'' [(''src'', ''u1''), (''alt'', ''A''), (''loading'', ''lazy'')] [],
            Element ''h3'' [] [Text ''A''],
            Element ''p'' [(''class'', ''date'')] [Text ''2020-01-01'']],
         clickItem = pictureA\<rparr>,
       \<lparr>itemEl = Element ''div'' [(''class'', ''gallery-item'')]
           [Element ''span'' [(''class'', ''play-overlay''), (''aria-hidden'', ''true'')]
              [Text playSymbol],
            Element ''img'' [(''src'', ''t2''), (''alt'', ''B''), (''loading'', ''lazy'')] [],
            Element ''h3'' [] [Text ''B''],
            Element ''p'' [(''class'', ''date'')] []],
         clickItem = pictureB\<rparr>]"
    by (simp add: createTile_def pictureA_def pictureB_def textContent_def playSymbol_def)
  have marks: "\<not> hasPlayOverlay (createTile pictureA) \<and> hasPlayOverlay (createTile pictureB)"
    by (simp add: hasPlayOverlay_createTile pictureA_def pictureB_def)
  show ?thesis
    using general two marks unfolding tiles by blast
qed

theorem gallery_one_tile_per_record_witness:
  "gallery freshPage = Some \<lparr>innerHTML = [], appended = []\<rparr> \<and> responseOk 200 \<and>
   [pictureA, pictureB] \<noteq> [] \<and>
   (\<exists>s' g'. onGetImageClick (Response 200 (Json (ArrayOf [Some pictureA, Some pictureB]))) freshPage
               = Inr s' \<and>
      gallery s' = Some g' \<and>
      length (appended g') = 2 \<and>
      clickItem (appended g' ! 0) = pictureA \<and>
      clickItem (appended g' ! 1) = pictureB \<and>
      \<not> hasPlayOverlay (appended g' ! 0) \<and>
      hasPlayOverlay (appended g' ! 1))"
proof -
  have h1: "gallery freshPage = Some \<lparr>innerHTML = [], appended = []\<rparr>"
    by (simp add: freshPage_def)
  have h2: "responseOk 200" by (simp add: responseOk_def)
  have h3: "[pictureA, pictureB] \<noteq> []" by simp
  from gallery_one_tile_per_record [OF h1 h2 h3]
  obtain s' g' where
    "onGetImageClick (Response 200 (Json (ArrayOf [Some pictureA, Some pictureB]))) freshPage = Inr s'"
    "gallery s' = Some g'" "appended g' = map createTile [pictureA, pictureB]"
    by auto
  then show ?thesis
    using h1 h2
    by (simp add: hasPlayOverlay_createTile) (simp add: createTile_def Let_def pictureA_def pictureB_def)
qed

text \<open>
  Claim C1 as it was stated, for every non-empty array, fails: with a \<open>null\<close> element
  after a record, the loop raises at the element, and the gallery ends with the error
  paragraph and no tile.
\<close>

theorem gallery_null_element_counterexample:
  "responseOk 200 \<and>
   [Some pictureA, None] \<noteq> [] \<and>
   onGetImageClick (Response 200 (Json (ArrayOf [Some pictureA, None]))) freshPage =
     Inr (freshPage
           \<lparr>gallery :=
              Some \<lparr>innerHTML = errorMarkup (nullRead ''media_type''), appended = []\<rparr>,
            console := [(''Failed to load APOD data:'', nullRead ''media_type'')]\<rparr>) \<and>
   length ([] :: tile list) \<noteq> length [Some pictureA, None]"
  by (simp add: responseOk_def onGetImageClick_def startLoad_def finishLoad_def tryLoad_def
      setInnerHTML_def catchLoad_def logError_def appendTile_def freshPage_def)

text \<open>
  Claim C2. With a gallery on the page: when the response's status is outside 200..299,
  or the fetch itself is rejected, the listener returns with the gallery holding the
  error paragraph, whose text ends with the message of the failure, and no tile, and
  the failure is appended to the diagnostic channel. When the response is ok and parses
  to something that is not an array, or to the empty array, the gallery holds the
  paragraph "No images found." and no tile, and the diagnostic channel is as before.
\<close>

theorem loader_failure_messages:
  assumes "gallery s = Some g"
  shows "(\<not> responseOk status \<longrightarrow>
            (\<exists>s'. onGetImageClick (Response status b) s = Inr s' \<and>
               gallery s' = Some
                 \<lparr>innerHTML = ''<p class=\"error\">Error loading images: '' @
                    ''Network response was not ok ('' @ show_nat status @ '')'' @ ''</p>'',
                  appended = []\<rparr> \<and>
               console s' = console s @
                 [(''Failed to load APOD data:'',
                   Error (''Network response was not ok ('' @ show_nat status @ '')''))] \<and>
               s' = s\<lparr>gallery := gallery s', console := console s'\<rparr>)) \<and>
         (\<exists>s'. onGetImageClick (Rejected e) s = Inr s' \<and>
            gallery s' = Some
              \<lparr>innerHTML = ''<p class=\"error\">Error loading images: '' @ message e @ ''</p>'',
               appended = []\<rparr> \<and>
            console s' = console s @ [(''Failed to load APOD data:'', e)] \<and>
            s' = s\<lparr>gallery := gallery s', console := console s'\<rparr>) \<and>
         (responseOk status \<and> (d = NotArray \<or> d = ArrayOf []) \<longrightarrow>
            (\<exists>s'. onGetImageClick (Response status (Json d)) s = Inr s' \<and>
               gallery s' = Some \<lparr>innerHTML = ''<p>No images found.</p>'', appended = []\<rparr> \<and>
               console s' = console s \<and>
               s' = s\<lparr>gallery := gallery s'\<rparr>))"
proof (intro conjI impI)
  assume "\<not> responseOk status"
  from onGetImageClick_not_ok [OF assms this, of b]
  show "\<exists>s'. onGetImageClick (Response status b) s = Inr s' \<and>
               gallery s' = Some
                 \<lparr>innerHTML = ''<p class=\"error\">Error loading images: '' @
                    ''Network response was not ok ('' @ show_nat status @ '')'' @ ''</p>'',
                  appended = []\<rparr> \<and>
               console s' = console s @
                 [(''Failed to load APOD data:'',
                   Error (''Network response was not ok ('' @ show_nat status @ '')''))] \<and>
               s' = s\<lparr>gallery := gallery s', console := console s'\<rparr>"
    by (simp add: errorMarkup_def notOkError_def)
next
  from onGetImageClick_rejected [OF assms, of e]
  show "\<exists>s'. onGetImageClick (Rejected e) s = Inr s' \<and>
            gallery s' = Some
              \<lparr>innerHTML = ''<p class=\"error\">Error loading images: '' @ message e @ ''</p>'',
               appended = []\<rparr> \<and>
            console s' = console s @ [(''Failed to load APOD data:'', e)] \<and>
            s' = s\<lparr>gallery := gallery s', console := console s'\<rparr>"
    by (simp add: errorMarkup_def)
next
  assume "responseOk status \<and> (d = NotArray \<or> d = ArrayOf [])"
  then have "onGetImageClick (Response status (Json d)) s =
           Inr (s\<lparr>gallery := Some \<lparr>innerHTML = noImagesMarkup, appended = []\<rparr>\<rparr>)"
    using assms by (intro onGetImageClick_no_images) simp_all
  then show "\<exists>s'. onGetImageClick (Response status (Json d)) s = Inr s' \<and>
               gallery s' = Some \<lparr>innerHTML = ''<p>No images found.</p>'', appended = []\<rparr> \<and>
               console s' = console s \<and>
               s' = s\<lparr>gallery := gallery s'\<rparr>"
    by (simp add: noImagesMarkup_def)
qed

theorem loader_failure_messages_witness:
  "gallery freshPage = Some \<lparr>innerHTML = [], appended = []\<rparr> \<and>
   \<not> responseOk 404 \<and> responseOk 200 \<and>
   (\<exists>s'. onGetImageClick (Response 404 (Json (ArrayOf [Some pictureA]))) freshPage = Inr s' \<and>
      gallery s' = Some
        \<lparr>innerHTML =
           ''<p class=\"error\">Error loading images: Network response was not ok (404)</p>'',
         appended = []\<rparr> \<and>
      console s' =
        [(''Failed to load APOD data:'', Error ''Network response was not ok (404)'')]) \<and>
   (\<exists>s'. onGetImageClick (Rejected (TypeError ''Failed to fetch'')) freshPage = Inr s' \<and>
      gallery s' = Some
        \<lparr>innerHTML = ''<p class=\"error\">Error loading images: Failed to fetch</p>'',
         appended = []\<rparr> \<and>
      console s' = [(''Failed to load APOD data:'', TypeError ''Failed to fetch'')]) \<and>
   (\<exists>s'. onGetImageClick (Response 200 (Json (ArrayOf []))) freshPage = Inr s' \<and>
      gallery s' = Some \<lparr>innerHTML = ''<p>No images found.</p>'', appended = []\<rparr> \<and>
      console s' = [])"
proof -
  have h: "gallery freshPage = Some \<lparr>innerHTML = [], appended = []\<rparr>"
    by (simp add: freshPage_def)
  have c: "console freshPage = []" by (simp add: freshPage_def)
  have n404: "\<not> responseOk 404" and ok200: "responseOk 200"
    by (simp_all add: responseOk_def)
  have d404: "show_nat 404 = ''404''" by code_simp
  note a = loader_failure_messages [OF h, of 404 "Json (ArrayOf [Some pictureA])"
      "TypeError ''Failed to fetch''" NotArray]
  note b = loader_failure_messages [OF h, of 200 "Json NotArray"
      "TypeError ''Failed to fetch''" "ArrayOf []"]
  from a n404 obtain s1 where
    "onGetImageClick (Response 404 (Json (ArrayOf [Some pictureA]))) freshPage = Inr s1"
    "gallery s1 = Some
        \<lparr>innerHTML =
           ''<p class=\"error\">Error loading images: Network response was not ok (404)</p>'',
         appended = []\<rparr>"
    "console s1 = [(''Failed to load APOD data:'', Error ''Network response was not ok (404)'')]"
    by (auto simp add: c d404)
  moreover from a obtain s2 where
    "onGetImageClick (Rejected (TypeError ''Failed to fetch'')) freshPage = Inr s2"
    "gallery s2 = Some
        \<lparr>innerHTML = ''<p class=\"error\">Error loading images: Failed to fetch</p>'',
         appended = []\<rparr>"
    "console s2 = [(''Failed to load APOD data:'', TypeError ''Failed to fetch'')]"
    by (auto simp add: c)
  moreover from b ok200 obtain s3 where
    "onGetImageClick (Response 200 (Json (ArrayOf []))) freshPage = Inr s3"
    "gallery s3 = Some \<lparr>innerHTML = ''<p>No images found.</p>'', appended = []\<rparr>"
    "console s3 = []"
    by (auto simp add: c)
  ultimately show ?thesis
    using h n404 ok200 by simp
qed

text \<open>
  Claim C6. With a gallery on the page, when the awaits of a run deliver an ok response
  that parses to a non-empty array of picture records, so that the run succeeds, the
  run leaves in the gallery exactly the tiles of that response, whatever the gallery held at that moment (tiles of earlier runs, a
  loading placeholder, a message), and nothing else on the page changes. In particular,
  whatever an earlier run delivered, the earlier run returns and changes nothing but the
  gallery's content and the diagnostic channel, and a later run that succeeds returns
  with the gallery holding exactly the tiles of its own response and everything else as
  it was before that run.
\<close>

theorem loader_replaces_gallery:
  assumes "gallery s = Some g" and "responseOk status" and "items \<noteq> []"
  shows "finishLoad (Response status (Json (ArrayOf (map Some items)))) s =
           Inr (s\<lparr>gallery := Some \<lparr>innerHTML = [], appended = map createTile items\<rparr>\<rparr>) \<and>
         (\<exists>s1. onGetImageClick earlier s = Inr s1 \<and>
            s1 = s\<lparr>gallery := gallery s1, console := console s1\<rparr> \<and>
            onGetImageClick (Response status (Json (ArrayOf (map Some items)))) s1 =
              Inr (s1\<lparr>gallery :=
                       Some \<lparr>innerHTML = [], appended = map createTile items\<rparr>\<rparr>))"
proof -
  from onGetImageClick_frame [of earlier s]
  obtain s1 where s1: "onGetImageClick earlier s = Inr s1"
    "s1 = s\<lparr>gallery := gallery s1, console := console s1\<rparr>"
    "gallery s1 = None \<longleftrightarrow> gallery s = None"
    by auto
  with assms(1) obtain g1 where "gallery s1 = Some g1" by auto
  from onGetImageClick_success [OF this assms(2,3)]
  have "onGetImageClick (Response status (Json (ArrayOf (map Some items)))) s1 =
          Inr (s1\<lparr>gallery := Some \<lparr>innerHTML = [], appended = map createTile items\<rparr>\<rparr>)" .
  with s1(1,2) have "\<exists>s1. onGetImageClick earlier s = Inr s1 \<and>
            s1 = s\<lparr>gallery := gallery s1, console := console s1\<rparr> \<and>
            onGetImageClick (Response status (Json (ArrayOf (map Some items)))) s1 =
              Inr (s1\<lparr>gallery :=
                       Some \<lparr>innerHTML = [], appended = map createTile items\<rparr>\<rparr>)"
    by (intro exI [of _ s1] conjI)
  with finishLoad_success [OF assms] show ?thesis by (rule conjI)
qed

theorem loader_replaces_gallery_witness:
  "gallery freshPage = Some \<lparr>innerHTML = [], appended = []\<rparr> \<and> responseOk 200 \<and>
   [pictureB] \<noteq> [] \<and>
   (\<exists>s1 s2. onGetImageClick (Response 200 (Json (ArrayOf [Some pictureA, Some pictureA]))) freshPage
               = Inr s1 \<and>
      gallery s1 = Some \<lparr>innerHTML = [], appended = [createTile pictureA, createTile pictureA]\<rparr> \<and>
      onGetImageClick (Response 200 (Json (ArrayOf [Some pictureB]))) s1 = Inr s2 \<and>
      gallery s2 = Some \<lparr>innerHTML = [], appended = [createTile pictureB]\<rparr> \<and>
      s2 = s1\<lparr>gallery := gallery s2\<rparr>)"
proof -
  have h1: "gallery freshPage = Some \<lparr>innerHTML = [], appended = []\<rparr>"
    by (simp add: freshPage_def)
  have h2: "responseOk 200" by (simp add: responseOk_def)
  have h3: "[pictureB] \<noteq> []" by simp
  have first: "onGetImageClick (Response 200 (Json (ArrayOf [Some pictureA, Some pictureA]))) freshPage =
      Inr (freshPage\<lparr>gallery := Some
             \<lparr>innerHTML = [], appended = map createTile [pictureA, pictureA]\<rparr>\<rparr>)"
    using onGetImageClick_success [OF h1 h2, of "[pictureA, pictureA]"] by simp
  from loader_replaces_gallery [OF h1 h2 h3,
      of "Response 200 (Json (ArrayOf [Some pictureA, Some pictureA]))"]
  obtain s1 where run1:
    "onGetImageClick (Response 200 (Json (ArrayOf [Some pictureA, Some pictureA]))) freshPage = Inr s1"
    and run2: "onGetImageClick (Response 200 (Json (ArrayOf [Some pictureB]))) s1 =
       Inr (s1\<lparr>gallery := Some \<lparr>innerHTML = [], appended = map createTile [pictureB]\<rparr>\<rparr>)"
    by auto
  from run1 have "s1 = freshPage\<lparr>gallery := Some
             \<lparr>innerHTML = [], appended = map createTile [pictureA, pictureA]\<rparr>\<rparr>"
    by (simp add: first)
  then have "gallery s1 =
      Some \<lparr>innerHTML = [], appended = [createTile pictureA, createTile pictureA]\<rparr>"
    by simp
  with run1 run2 show ?thesis using h1 h2 by simp
qed

section \<open>Modal controller: properties\<close>

lemma orElse_present: "orElse v d = (if present v then the v else d)"
  by (cases v) (simp_all add: present_def)

lemmas modal_step_defs =
  removeModalVideo_def updImage_def setAriaHidden_def setTitleText_def setDateText_def
  setExplanationText_def focusCloseBtn_def setBodyOverflow_def insertIframe_def hideImage_def
  showImage_def showMedia_def fillTitle_def fillDate_def fillExplanation_def focusClose_def
  resetImage_def

text \<open>What \<open>openModal\<close> and \<open>closeModal\<close> return when the modal is on the page.\<close>

lemma openModal_video:
  assumes "modal s = Some m" and "media_type it = Some ''video''"
  shows "openModal (Some it) s =
     Inr (s\<lparr>embeds :=
              \<lparr>frame = createIframe it,
               insertedAt = (if modalImage s = None then EndOfModal else AfterModalImage)\<rparr>
              # tl (embeds s),
            modalImage := map_option (\<lambda>i. i\<lparr>imgDisplay := ''none''\<rparr>) (modalImage s),
            modalTitle := map_option (\<lambda>_. orElse (title it) ''Untitled'') (modalTitle s),
            modalDate := map_option (\<lambda>_. orElse (date it) []) (modalDate s),
            modalExplanation :=
              map_option (\<lambda>_. orElse (explanation it) []) (modalExplanation s),
            modal := Some (m\<lparr>ariaHidden := Some ''false''\<rparr>),
            bodyOverflow := ''hidden'',
            closeBtnFocused := (closeBtnFocused s \<or> modalCloseBtn s)\<rparr>)"
  using assms
  by (cases "embeds s"; cases "modalImage s"; cases "modalTitle s"; cases "modalDate s";
      cases "modalExplanation s"; cases "modalCloseBtn s")
     (simp_all add: openModal_def modal_step_defs)

lemma openModal_image:
  assumes "modal s = Some m" and "media_type it \<noteq> Some ''video''"
  shows "openModal (Some it) s =
     Inr (s\<lparr>embeds := tl (embeds s),
            modalImage :=
              map_option (\<lambda>i. i\<lparr>imgDisplay := [],
                                   imgSrc := orElse (hdurl it) (orElse (url it) []),
                                   imgAlt := orElse (title it) ''Space image''\<rparr>)
                (modalImage s),
            modalTitle := map_option (\<lambda>_. orElse (title it) ''Untitled'') (modalTitle s),
            modalDate := map_option (\<lambda>_. orElse (date it) []) (modalDate s),
            modalExplanation :=
              map_option (\<lambda>_. orElse (explanation it) []) (modalExplanation s),
            modal := Some (m\<lparr>ariaHidden := Some ''false''\<rparr>),
            bodyOverflow := ''hidden'',
            closeBtnFocused := (closeBtnFocused s \<or> modalCloseBtn s)\<rparr>)"
  using assms
  by (cases "embeds s"; cases "modalImage s"; cases "modalTitle s"; cases "modalDate s";
      cases "modalExplanation s"; cases "modalCloseBtn s")
     (simp_all add: openModal_def modal_step_defs)

lemma closeModal_present:
  assumes "modal s = Some m"
  shows "closeModal s =
     Inr (s\<lparr>modal := Some (m\<lparr>ariaHidden := Some ''true''\<rparr>),
            embeds := tl (embeds s),
            modalImage :=
              map_option (\<lambda>i. i\<lparr>imgSrc := [], imgDisplay := []\<rparr>) (modalImage s),
            bodyOverflow := []\<rparr>)"
  using assms
  by (cases "embeds s"; cases "modalImage s") (simp_all add: closeModal_def modal_step_defs)

lemma openModal_absent: "item = None \<or> modal s = None \<Longrightarrow> openModal item s = Inr s"
  by (auto simp add: openModal_def split: option.splits)

lemma closeModal_absent: "modal s = None \<Longrightarrow> closeModal s = Inr s"
  by (simp add: closeModal_def)

lemma openModal_returns:
  "\<exists>s'. openModal item s = Inr s' \<and> length (embeds s') \<le> max 1 (length (embeds s))"
proof (cases "item = None \<or> modal s = None")
  case True
  then show ?thesis by (simp add: openModal_absent)
next
  case False
  then obtain it m where "item = Some it" "modal s = Some m" by auto
  then show ?thesis
    by (cases "media_type it = Some ''video''") (simp_all add: openModal_video openModal_image)
qed

lemma closeModal_returns:
  "\<exists>s'. closeModal s = Inr s' \<and> length (embeds s') \<le> length (embeds s)"
proof (cases "modal s")
  case None
  then show ?thesis by (simp add: closeModal_absent)
next
  case (Some m)
  then show ?thesis by (simp add: closeModal_present)
qed

lemma runOp_returns:
  "\<exists>s'. runOp op s = Inr s' \<and> length (embeds s') \<le> max 1 (length (embeds s))"
proof (cases op)
  case (Open item)
  then show ?thesis using openModal_returns [of item s] by simp
next
  case Close
  then show ?thesis using closeModal_returns [of s] by auto
qed

lemma iframe_src:
  "getAttribute ''src'' (createIframe it) =
     Some (if present (url it) then the (url it)
           else if present (thumbnail_url it) then the (thumbnail_url it) else [])"
  by (simp add: createIframe_def orElse_present)

text \<open>
  Claim C3. For a record whose \<open>media_type\<close> is \<open>video\<close>, with the modal on the page and
  at most one element with id \<open>modal-video\<close> in the document: \<open>openModal\<close> returns; the
  modal image, when the page has one, gets display \<open>none\<close>; the document then holds one
  video embed, the iframe with id \<open>modal-video\<close> whose \<open>src\<close> is the record's \<open>url\<close> when
  present, else its \<open>thumbnail_url\<close> when present, else the empty string. \<open>closeModal\<close>
  on that page returns, leaves no video embed, and gives the image the empty display
  and the empty source.
\<close>

theorem video_open_then_close:
  assumes "media_type item = Some ''video''" and "modal s = Some m"
    and "length (embeds s) \<le> 1"
  shows "\<exists>s1 s2 f.
           openModal (Some item) s = Inr s1 \<and>
           modalImage s1 = map_option (\<lambda>i. i\<lparr>imgDisplay := ''none''\<rparr>) (modalImage s) \<and>
           embeds s1 = [f] \<and>
           frame f = createIframe item \<and>
           getAttribute ''id'' (frame f) = Some ''modal-video'' \<and>
           getAttribute ''src'' (frame f) =
             Some (if present (url item) then the (url item)
                   else if present (thumbnail_url item) then the (thumbnail_url item)
                   else []) \<and>
           closeModal s1 = Inr s2 \<and>
           embeds s2 = [] \<and>
           modalImage s2 =
             map_option (\<lambda>i. i\<lparr>imgDisplay := [], imgSrc := []\<rparr>) (modalImage s)"
proof -
  let ?f = "\<lparr>frame = createIframe item,
             insertedAt = (if modalImage s = None then EndOfModal else AfterModalImage)\<rparr>"
  from assms(3) have tl: "tl (embeds s) = []" by (cases "embeds s") simp_all
  obtain s1 where s1: "openModal (Some item) s = Inr s1"
    and e1: "embeds s1 = [?f]"
    and i1: "modalImage s1 = map_option (\<lambda>i. i\<lparr>imgDisplay := ''none''\<rparr>) (modalImage s)"
    and m1: "modal s1 = Some (m\<lparr>ariaHidden := Some ''false''\<rparr>)"
    using openModal_video [OF assms(2,1)] tl by simp
  obtain s2 where s2: "closeModal s1 = Inr s2"
    and e2: "embeds s2 = []"
    and i2: "modalImage s2 = map_option (\<lambda>i. i\<lparr>imgSrc := [], imgDisplay := []\<rparr>) (modalImage s1)"
    using closeModal_present [OF m1] e1 by simp
  have i2': "modalImage s2 = map_option (\<lambda>i. i\<lparr>imgDisplay := [], imgSrc := []\<rparr>) (modalImage s)"
    unfolding i2 i1 by (cases "modalImage s") simp_all
  have id: "getAttribute ''id'' (createIframe item) = Some ''modal-video''"
    by (simp add: createIframe_def)
  show ?thesis
    using s1 i1 e1 s2 e2 i2' id iframe_src [of item] by simp
qed

theorem video_open_then_close_witness:
  "media_type pictureVideo = Some ''video'' \<and>
   modal freshPage = Some \<lparr>ariaHidden = Some ''true''\<rparr> \<and>
   length (embeds freshPage) \<le> 1 \<and>
   (\<exists>s1 s2 f. openModal (Some pictureVideo) freshPage = Inr s1 \<and>
      modalImage s1 = Some \<lparr>imgDisplay = ''none'', imgSrc = [], imgAlt = []\<rparr> \<and>
      embeds s1 = [f] \<and>
      getAttribute ''src'' (frame f) = Some ''https://embed/x'' \<and>
      closeModal s1 = Inr s2 \<and>
      embeds s2 = [] \<and>
      modalImage s2 = Some \<lparr>imgDisplay = [], imgSrc = [], imgAlt = []\<rparr>)"
proof -
  have h1: "media_type pictureVideo = Some ''video''" by (simp add: pictureVideo_def)
  have h2: "modal freshPage = Some \<lparr>ariaHidden = Some ''true''\<rparr>" by (simp add: freshPage_def)
  have h3: "length (embeds freshPage) \<le> 1" by (simp add: freshPage_def)
  have img: "modalImage freshPage = Some \<lparr>imgDisplay = [], imgSrc = [], imgAlt = []\<rparr>"
    by (simp add: freshPage_def)
  have src: "(if present (url pictureVideo) then the (url pictureVideo)
              else if present (thumbnail_url pictureVideo) then the (thumbnail_url pictureVideo)
              else []) = ''https://embed/x''"
    by (simp add: pictureVideo_def present_def)
  from video_open_then_close [OF h1 h2 h3]
  show ?thesis using h1 h2 h3 unfolding img src by simp blast
qed



lemma onKeydown_returns: "\<exists>s'. onKeydown key s = Inr s'"
  using closeModal_returns [of s] by (auto simp add: onKeydown_def split: option.splits)

lemma onOverlayClick_returns: "\<exists>s'. onOverlayClick target s = Inr s'"
  using closeModal_returns [of s] by (auto simp add: onOverlayClick_def)

text \<open>
  Claim C5. The keydown listener on Escape: when the modal's \<open>aria-hidden\<close> is "false"
  it does what \<open>closeModal\<close> does, and the attribute becomes "true"; when the attribute
  is "true" or was never set (or is anything but "false"), or the page has no modal, the
  page is returned as it was. Any other key leaves the page as it was.
\<close>

theorem escape_closes_only_when_visible:
  "(\<forall>m. modal s = Some m \<and> ariaHidden m = Some ''false'' \<longrightarrow>
      onKeydown ''Escape'' s = closeModal s \<and>
      (\<exists>s'. onKeydown ''Escape'' s = Inr s' \<and>
         modal s' = Some (m\<lparr>ariaHidden := Some ''true''\<rparr>))) \<and>
   (\<forall>m. modal s = Some m \<and> (ariaHidden m = Some ''true'' \<or> ariaHidden m = None) \<longrightarrow>
      onKeydown ''Escape'' s = Inr s) \<and>
   (\<forall>m. modal s = Some m \<and> ariaHidden m \<noteq> Some ''false'' \<longrightarrow>
      onKeydown ''Escape'' s = Inr s) \<and>
   (modal s = None \<longrightarrow> onKeydown ''Escape'' s = Inr s) \<and>
   (key \<noteq> ''Escape'' \<longrightarrow> onKeydown key s = Inr s)"
proof (intro conjI allI impI)
  fix m assume a: "modal s = Some m \<and> ariaHidden m = Some ''false''"
  then show "onKeydown ''Escape'' s = closeModal s" by (simp add: onKeydown_def)
  from a show "\<exists>s'. onKeydown ''Escape'' s = Inr s' \<and>
         modal s' = Some (m\<lparr>ariaHidden := Some ''true''\<rparr>)"
    by (simp add: onKeydown_def closeModal_present)
next
  fix m assume "modal s = Some m \<and> (ariaHidden m = Some ''true'' \<or> ariaHidden m = None)"
  then show "onKeydown ''Escape'' s = Inr s" by (auto simp add: onKeydown_def)
next
  fix m assume "modal s = Some m \<and> ariaHidden m \<noteq> Some ''false''"
  then show "onKeydown ''Escape'' s = Inr s" by (simp add: onKeydown_def)
next
  assume "modal s = None"
  then show "onKeydown ''Escape'' s = Inr s" by (simp add: onKeydown_def)
next
  assume "key \<noteq> ''Escape''"
  then show "onKeydown key s = Inr s" by (simp add: onKeydown_def split: option.splits)
qed

theorem escape_closes_only_when_visible_witness:
  "modal (freshPage\<lparr>modal := Some \<lparr>ariaHidden = Some ''false''\<rparr>\<rparr>) =
     Some \<lparr>ariaHidden = Some ''false''\<rparr> \<and>
   (\<exists>s'. onKeydown ''Escape'' (freshPage\<lparr>modal := Some \<lparr>ariaHidden = Some ''false''\<rparr>\<rparr>) = Inr s' \<and>
      modal s' = Some \<lparr>ariaHidden = Some ''true''\<rparr>) \<and>
   modal freshPage = Some \<lparr>ariaHidden = Some ''true''\<rparr> \<and>
   onKeydown ''Escape'' freshPage = Inr freshPage \<and>
   modal barePage = None \<and>
   onKeydown ''Escape'' barePage = Inr barePage \<and>
   ''Enter'' \<noteq> ''Escape'' \<and>
   onKeydown ''Enter'' (freshPage\<lparr>modal := Some \<lparr>ariaHidden = Some ''false''\<rparr>\<rparr>) =
     Inr (freshPage\<lparr>modal := Some \<lparr>ariaHidden = Some ''false''\<rparr>\<rparr>)"
proof -
  let ?open = "freshPage\<lparr>modal := Some \<lparr>ariaHidden = Some ''false''\<rparr>\<rparr>"
  have h1: "modal ?open = Some \<lparr>ariaHidden = Some ''false''\<rparr>" by simp
  have h2: "modal freshPage = Some \<lparr>ariaHidden = Some ''true''\<rparr>" by (simp add: freshPage_def)
  have h3: "modal barePage = None" by (simp add: barePage_def)
  have h4: "''Enter'' \<noteq> ''Escape''" by simp
  note a = escape_closes_only_when_visible [of ?open "''Enter''"]
  note b = escape_closes_only_when_visible [of freshPage "''Enter''"]
  note c = escape_closes_only_when_visible [of barePage "''Enter''"]
  from a have "\<forall>m. modal ?open = Some m \<and> ariaHidden m = Some ''false'' \<longrightarrow>
      (\<exists>s'. onKeydown ''Escape'' ?open = Inr s' \<and>
         modal s' = Some (m\<lparr>ariaHidden := Some ''true''\<rparr>))" by blast
  from this [rule_format, of "\<lparr>ariaHidden = Some ''false''\<rparr>"]
  have "\<exists>s'. onKeydown ''Escape'' ?open = Inr s' \<and>
      modal s' = Some \<lparr>ariaHidden = Some ''true''\<rparr>" by simp
  moreover from a h4 have "onKeydown ''Enter'' ?open = Inr ?open" by blast
  moreover from b h2 have "onKeydown ''Escape'' freshPage = Inr freshPage" by simp
  moreover from c h3 have "onKeydown ''Escape'' barePage = Inr barePage" by blast
  ultimately show ?thesis using h1 h2 h3 h4 by blast
qed

text \<open>
  Claim C7. \<open>openModal\<close> with no record returns the page as it was; with no modal on the
  page, \<open>openModal\<close>, \<open>closeModal\<close> and the keydown and overlay listeners return the page
  as it was. On every page and for every argument the four operations return: none of
  them raises, whichever of the regions are missing.
\<close>

theorem modal_controller_never_throws:
  "openModal None s = Inr s \<and>
   (modal s = None \<longrightarrow> openModal item s = Inr s) \<and>
   (modal s = None \<longrightarrow> closeModal s = Inr s) \<and>
   (modal s = None \<longrightarrow> onKeydown key s = Inr s) \<and>
   (modal s = None \<longrightarrow> onOverlayClick target s = Inr s) \<and>
   (\<exists>s'. openModal item s = Inr s') \<and>
   (\<exists>s'. closeModal s = Inr s') \<and>
   (\<exists>s'. onKeydown key s = Inr s') \<and>
   (\<exists>s'. onOverlayClick target s = Inr s')"
proof -
  have "onOverlayClick target s = Inr s" if "modal s = None"
    using that by (simp add: onOverlayClick_def closeModal_absent)
  moreover have "onKeydown key s = Inr s" if "modal s = None"
    using that by (simp add: onKeydown_def)
  moreover have "\<exists>s'. openModal item s = Inr s'" using openModal_returns [of item s] by blast
  moreover have "\<exists>s'. closeModal s = Inr s'" using closeModal_returns [of s] by blast
  ultimately show ?thesis
    using onKeydown_returns [of key s] onOverlayClick_returns [of target s]
    by (simp add: openModal_absent closeModal_absent)
qed

theorem modal_controller_never_throws_witness:
  "modal barePage = None \<and>
   openModal None freshPage = Inr freshPage \<and>
   openModal (Some pictureVideo) barePage = Inr barePage \<and>
   closeModal barePage = Inr barePage \<and>
   onKeydown ''Escape'' barePage = Inr barePage \<and>
   onOverlayClick (Some \<lparr>dataset = Some [(''close'', ''true'')]\<rparr>) barePage = Inr barePage \<and>
   (\<exists>s'. openModal (Some pictureVideo) (freshPage\<lparr>modalImage := None, modalTitle := None,
             modalCloseBtn := False\<rparr>) = Inr s')"
proof -
  have h: "modal barePage = None" by (simp add: barePage_def)
  note a = modal_controller_never_throws [of freshPage None "''Escape''" None]
  note b = modal_controller_never_throws [of barePage "Some pictureVideo" "''Escape''"
      "Some \<lparr>dataset = Some [(''close'', ''true'')]\<rparr>"]
  note c = modal_controller_never_throws [of
      "freshPage\<lparr>modalImage := None, modalTitle := None, modalCloseBtn := False\<rparr>"
      "Some pictureVideo" "''Escape''" None]
  from a have "openModal None freshPage = Inr freshPage" by blast
  moreover from b h have "openModal (Some pictureVideo) barePage = Inr barePage"
    "closeModal barePage = Inr barePage" "onKeydown ''Escape'' barePage = Inr barePage"
    "onOverlayClick (Some \<lparr>dataset = Some [(''close'', ''true'')]\<rparr>) barePage = Inr barePage"
    by blast+
  moreover from c have "\<exists>s'. openModal (Some pictureVideo) (freshPage\<lparr>modalImage := None,
      modalTitle := None, modalCloseBtn := False\<rparr>) = Inr s'" by blast
  ultimately show ?thesis using h by blast
qed

text \<open>
  Claim C10. From a page whose document holds at most one element with id
  \<open>modal-video\<close>, every finite run of \<open>openModal\<close> and \<open>closeModal\<close> calls returns, and
  the document holds at most one such element after it.
\<close>

theorem at_most_one_video_embed:
  assumes "length (embeds s) \<le> 1"
  shows "\<exists>s'. runOps ops s = Inr s' \<and> length (embeds s') \<le> 1"
  using assms
proof (induction ops arbitrary: s)
  case Nil
  then show ?case by simp
next
  case (Cons op ops)
  obtain s1 where s1: "runOp op s = Inr s1" "length (embeds s1) \<le> max 1 (length (embeds s))"
    using runOp_returns by blast
  with Cons.prems have "length (embeds s1) \<le> 1" by simp
  from Cons.IH [OF this] show ?case using s1 by simp
qed

theorem at_most_one_video_embed_witness:
  "length (embeds freshPage) \<le> 1 \<and>
   (\<exists>s'. runOps [Open (Some pictureVideo), Open (Some pictureB), Close, Open (Some pictureA),
                  Open (Some pictureVideo)] freshPage = Inr s' \<and>
      length (embeds s') \<le> 1)"
proof -
  have h: "length (embeds freshPage) \<le> 1" by (simp add: freshPage_def)
  from at_most_one_video_embed [OF h] show ?thesis using h by blast
qed

section \<open>Fact picker: properties\<close>

text \<open>The bounds that place the rounded product below the length.\<close>

lemma bitlen_lower: "0 < n \<Longrightarrow> 2 ^ (bitlen n - 1) \<le> n"
proof (induction n rule: bitlen.induct)
  case (1 n)
  show ?case
  proof (cases "n div 2 = 0")
    case True
    with "1.prems" have "n = 1" by (simp add: div_eq_0_iff) 
    then show ?thesis by (simp add: bitlen.simps [of "Suc 0"] bitlen.simps [of 0])
  next
    case False
    then have pos: "0 < n div 2" by simp
    have ih: "2 ^ (bitlen (n div 2) - 1) \<le> n div 2"
      using "1.IH" "1.prems" pos by simp
    have bl: "bitlen n = Suc (bitlen (n div 2))"
      using "1.prems" by (simp add: bitlen.simps [of n])
    have "bitlen (n div 2) \<noteq> 0" using pos by (simp add: bitlen.simps [of "n div 2"])
    then have "bitlen n - 1 = Suc (bitlen (n div 2) - 1)" using bl by simp
    then have "(2::nat) ^ (bitlen n - 1) = 2 * 2 ^ (bitlen (n div 2) - 1)" by simp
    also have "\<dots> \<le> 2 * (n div 2)" using ih by simp
    also have "\<dots> \<le> n" by simp
    finally show ?thesis .
  qed
qed

lemma roundToDouble_upper:
  assumes "53 < bitlen N"
  shows "roundToDouble N \<le> N + 2 ^ (bitlen N - 54)"
proof -
  define k where "k = bitlen N - 53"
  have k: "0 < k" using assms by (simp add: k_def)
  define q where "q = N div 2 ^ k"
  define rest where "rest = N mod 2 ^ k"
  have N: "N = q * 2 ^ k + rest" by (simp add: q_def rest_def div_mult_mod_eq)
  have pw: "(2::nat) ^ k = 2 * 2 ^ (k - 1)" using k by (cases k) simp_all
  have km: "bitlen N - 54 = k - 1" by (simp add: k_def)
  show ?thesis
  proof (cases "rest > 2 ^ (k - 1) \<or> (rest = 2 ^ (k - 1) \<and> odd q)")
    case True
    then have r: "roundToDouble N = (q + 1) * 2 ^ k"
      using assms by (simp add: roundToDouble_def Let_def k_def q_def rest_def)
    from True have "2 ^ (k - 1) \<le> rest" by auto
    then have "(q + 1) * 2 ^ k \<le> q * 2 ^ k + rest + 2 ^ (k - 1)"
      using pw by (simp add: algebra_simps)
    then show ?thesis using r N km by simp
  next
    case False
    then have r: "roundToDouble N = q * 2 ^ k"
      using assms by (simp add: roundToDouble_def Let_def k_def q_def rest_def)
    show ?thesis using r N by simp
  qed
qed

lemma randomIndex_lt:
  assumes m53: "m < 2 ^ 53" and m1: "m < 2 ^ e" and n: "0 < n"
  shows "randomIndex n (m, e) < n"
proof -
  define N where "N = m * n"
  have "(m + 1) * n \<le> 2 ^ e * n" using m1 by (intro mult_le_mono1) simp
  then have Nn: "N + n \<le> n * 2 ^ e" by (simp add: N_def algebra_simps)
  have "roundToDouble N < n * 2 ^ e"
  proof (cases "bitlen N \<le> 53")
    case True
    then have "roundToDouble N = N" by (simp add: roundToDouble_def)
    then show ?thesis using Nn n by simp
  next
    case False
    then have big: "53 < bitlen N" by simp
    then have Npos: "0 < N" by (cases "N = 0") (simp_all add: bitlen.simps [of 0])
    have "(2::nat) ^ 53 * 2 ^ (bitlen N - 54) = 2 ^ (53 + (bitlen N - 54))"
      by (simp only: power_add)
    also have "53 + (bitlen N - 54) = bitlen N - 1" using big by simp
    also have "(2::nat) ^ (bitlen N - 1) \<le> N" using bitlen_lower [OF Npos] .
    also have "N < 2 ^ 53 * n" unfolding N_def using m53 n by simp
    finally have "(2::nat) ^ (bitlen N - 54) < n" by simp
    moreover have "roundToDouble N \<le> N + 2 ^ (bitlen N - 54)"
      using roundToDouble_upper [OF big] .
    ultimately show ?thesis using Nn by linarith
  qed
  then have "roundToDouble N div 2 ^ e < n"
    by (simp add: less_mult_imp_div_less)
  then show ?thesis by (simp add: randomIndex_def N_def)
qed












lemma spaceFacts_length: "length spaceFacts = 10"
  by (simp add: spaceFacts_def)

lemma spaceFacts_nonempty: "[] \<notin> set spaceFacts"
  by (simp add: spaceFacts_def emDash_def)

lemma pickFact_element:
  assumes "isRandomValue r" and "facts \<noteq> []" and "[] \<notin> set facts"
  shows "pickFact facts r = facts ! randomIndex (length facts) r"
proof -
  obtain m e where r: "r = (m, e)" by (cases r)
  with assms have "randomIndex (length facts) r < length facts"
    by (simp add: isRandomValue_def randomIndex_lt)
  moreover from this assms(3) have "facts ! randomIndex (length facts) r \<noteq> []"
    using nth_mem by metis
  ultimately show ?thesis by (simp add: pickFact_def factAt_def)
qed

text \<open>
  Claim C8, as amended. For every draw of \<open>Math.random()\<close> (a double that is at least 0
  and less than 1) and every list that is not empty, the index computed with the
  rounded product is less than the length of the list, so \<open>facts[idx]\<close> is an element
  and not \<open>undefined\<close>; when no entry of the list is the empty string, the fact shown is
  that element. For \<open>spaceFacts\<close>, the list of the script, the fact shown is the element
  at the index.
\<close>

theorem fact_index_in_range:
  assumes "isRandomValue r" and "facts \<noteq> []"
  shows "randomIndex (length facts) r < length facts \<and>
         factAt facts (randomIndex (length facts) r) = Some (facts ! randomIndex (length facts) r) \<and>
         ([] \<notin> set facts \<longrightarrow> pickFact facts r = facts ! randomIndex (length facts) r \<and> pickFact facts r \<in> set facts) \<and>
         pickFact spaceFacts r = spaceFacts ! randomIndex (length spaceFacts) r \<and>
         pickFact spaceFacts r \<in> set spaceFacts"
proof -
  obtain m e where r: "r = (m, e)" by (cases r)
  have lt: "randomIndex (length fs) r < length fs" if "fs \<noteq> []" for fs :: "string list"
    using that assms(1) r by (simp add: isRandomValue_def randomIndex_lt)
  have sf: "spaceFacts \<noteq> []" by (simp add: spaceFacts_def)
  show ?thesis
    using lt [OF assms(2)] lt [OF sf] pickFact_element [OF assms(1) sf spaceFacts_nonempty]
      pickFact_element [OF assms]
    by (simp add: factAt_def)
qed

theorem fact_index_in_range_witness:
  "isRandomValue (9007199254740991, 53) \<and> spaceFacts \<noteq> [] \<and>
   randomIndex (length spaceFacts) (9007199254740991, 53) = 9 \<and>
   pickFact spaceFacts (9007199254740991, 53) =
     ''The Moon is slowly moving away from Earth at about 3.8 centimeters per year.'' \<and>
   pickFact spaceFacts (9007199254740991, 53) \<in> set spaceFacts"
proof -
  have h1: "isRandomValue (9007199254740991, 53)" by (simp add: isRandomValue_def)
  have h2: "spaceFacts \<noteq> []" by (simp add: spaceFacts_def)
  have bl: "bitlen 90071992547409910 = 57"
    by (simp add: bitlen.simps)
  have ix: "randomIndex (length spaceFacts) (9007199254740991, 53) = 9"
    by (simp add: spaceFacts_length randomIndex_def roundToDouble_def Let_def bl)
  have nth: "spaceFacts ! 9 = ''The Moon is slowly moving away from Earth at about 3.8 centimeters per year.''"
    by (simp add: spaceFacts_def)
  from fact_index_in_range [OF h1 h2]
  have "pickFact spaceFacts (9007199254740991, 53) =
          spaceFacts ! randomIndex (length spaceFacts) (9007199254740991, 53)"
    and "pickFact spaceFacts (9007199254740991, 53) \<in> set spaceFacts"
    by simp_all
  then show ?thesis using h1 h2 ix nth by simp
qed

text \<open>
  Claim C8 as it was stated, for every non-empty list, fails in its second part: for the
  list whose one entry is the empty string the index is in range, and the text shown is
  the fallback, which is not an element of the list.
\<close>

theorem fact_empty_entry_counterexample:
  "isRandomValue (0, 0) \<and>
   [[]] \<noteq> ([] :: string list) \<and>
   randomIndex (length [[] :: string]) (0, 0) = 0 \<and>
   pickFact [[]] (0, 0) = ''Space is full of surprises!'' \<and>
   pickFact [[]] (0, 0) \<notin> set [[]]"
  by (simp add: isRandomValue_def randomIndex_def roundToDouble_def bitlen.simps [of 0]
      pickFact_def factAt_def fallbackFact_def)

end
